theory Spec2Isabelle
  imports Main "HOL-Library.Sublist" "HOL-Library.Word"
begin

section \<open>Strings\<close>

text \<open>
  Python strings are modelled as \<open>string\<close>, one \<open>char\<close> per character (code points below
  256). \<open>str.startswith\<close> is \<open>prefix\<close>, \<open>str.endswith\<close> is \<open>suffix\<close>, \<open>s[1:]\<close> is
  \<open>tl\<close> and \<open>s[:-1]\<close> is \<open>butlast\<close>.
\<close>

text \<open>\<open>str.replace(old, new)\<close>: leftmost occurrences, not overlapping.\<close>

function replace_str :: "string \<Rightarrow> string \<Rightarrow> string \<Rightarrow> string" where
  "replace_str old new s =
     (if old = [] then new @ concat (map (\<lambda>c. c # new) s)
      else if s = [] then []
      else if prefix old s then new @ replace_str old new (drop (length old) s)
      else hd s # replace_str old new (tl s))"
  by pat_completeness auto
termination
  by (relation "measure (\<lambda>(old, new, s). length s)") (auto simp: neq_Nil_conv)

declare replace_str.simps [simp del]

text \<open>
  \<open>str.isspace\<close> on code points below 256, which is what \<open>str.strip()\<close> removes from both
  ends.
\<close>

definition is_space :: "char \<Rightarrow> bool" where
  "is_space c = (c \<in> set [CHR 0x09, CHR 0x0A, CHR 0x0B, CHR 0x0C, CHR 0x0D,
                          CHR 0x1C, CHR 0x1D, CHR 0x1E, CHR 0x1F, CHR 0x20,
                          CHR 0x85, CHR 0xA0])"

definition strip :: "string \<Rightarrow> string" where
  "strip s = rev (dropWhile is_space (rev (dropWhile is_space s)))"

section \<open>Regular expressions\<close>

text \<open>
  \<open>re.escape\<close> (Python 3.7 and later) puts a backslash before each of the characters
  \<open>()[]{}?*+-|^$\.&~#\<close>, space, tab, newline, carriage return, vertical tab and form feed,
  and leaves every other character as it is.
\<close>

definition re_special :: "char \<Rightarrow> bool" where
  "re_special c = (c \<in> set (''()[]{}?*+-|^$'' @ [CHR 0x5C] @ ''.&~# '' @
                             [CHR 0x09, CHR 0x0A, CHR 0x0D, CHR 0x0B, CHR 0x0C]))"

fun re_escape :: "string \<Rightarrow> string" where
  "re_escape [] = []"
| "re_escape (c # cs) = (if re_special c then CHR 0x5C # c # re_escape cs else c # re_escape cs)"

text \<open>
  The compiled form of a regular expression, for the syntax that \<open>_pattern_to_regex\<close>
  emits: a sequence of items, each one of
  \<^item> a literal character (written plain, or after a backslash),
  \<^item> \<open>.*\<close>, any run of characters other than newline,
  \<^item> \<open>[^/]*\<close>, any run of characters other than \<open>/\<close>,
  \<^item> \<open>[^/]\<close>, one character other than \<open>/\<close>,
  \<^item> \<open>^\<close>, the start of the string,
  \<^item> \<open>(^|/)\<close>, the start of the string or one \<open>/\<close>,
  \<^item> \<open>($|/)\<close> or \<open>(/|$)\<close>, the end of the string or one \<open>/\<close>.
\<close>

datatype rx = Lit char | AnyStar | NonSlashStar | NonSlash | Bol | BolOrSlash | EolOrSlash

function re_compile :: "string \<Rightarrow> rx list" where
  "re_compile s =
     (if s = [] then []
      else if prefix ''(^|/)'' s then BolOrSlash # re_compile (drop 5 s)
      else if prefix ''($|/)'' s then EolOrSlash # re_compile (drop 5 s)
      else if prefix ''(/|$)'' s then EolOrSlash # re_compile (drop 5 s)
      else if prefix ''[^/]*'' s then NonSlashStar # re_compile (drop 5 s)
      else if prefix ''[^/]'' s then NonSlash # re_compile (drop 4 s)
      else if prefix ''.*'' s then AnyStar # re_compile (drop 2 s)
      else if prefix ''^'' s then Bol # re_compile (drop 1 s)
      else if hd s = CHR 0x5C \<and> tl s \<noteq> [] then Lit (hd (tl s)) # re_compile (drop 2 s)
      else Lit (hd s) # re_compile (tl s))"
  by pat_completeness auto
termination
  by (relation "measure length") (auto simp: neq_Nil_conv)

declare re_compile.simps [simp del]

text \<open>
  Python's \<open>$\<close> (without \<open>re.MULTILINE\<close>) holds at the end of the string and just before a
  newline that ends the string; \<open>^\<close> holds at the start of the string only.
\<close>

definition at_eol :: "string \<Rightarrow> bool" where
  "at_eol s = (s = [] \<or> s = [CHR 0x0A])"

text \<open>
  \<open>rx_match r b s\<close>: the items \<open>r\<close> match a prefix of the rest \<open>s\<close> of the subject, where
  \<open>b\<close> tells whether \<open>s\<close> is the whole subject (the position is the start of the string).
\<close>

fun rx_match :: "rx list \<Rightarrow> bool \<Rightarrow> string \<Rightarrow> bool" where
  "rx_match [] b s = True"
| "rx_match (Lit c # r) b [] = False"
| "rx_match (Lit c # r) b (x # xs) = (x = c \<and> rx_match r False xs)"
| "rx_match (NonSlash # r) b [] = False"
| "rx_match (NonSlash # r) b (x # xs) = (x \<noteq> CHR ''/'' \<and> rx_match r False xs)"
| "rx_match (NonSlashStar # r) b [] = rx_match r b []"
| "rx_match (NonSlashStar # r) b (x # xs) =
     (rx_match r b (x # xs) \<or> (x \<noteq> CHR ''/'' \<and> rx_match (NonSlashStar # r) False xs))"
| "rx_match (AnyStar # r) b [] = rx_match r b []"
| "rx_match (AnyStar # r) b (x # xs) =
     (rx_match r b (x # xs) \<or> (x \<noteq> CHR 0x0A \<and> rx_match (AnyStar # r) False xs))"
| "rx_match (Bol # r) b s = (b \<and> rx_match r b s)"
| "rx_match (BolOrSlash # r) b [] = (b \<and> rx_match r b [])"
| "rx_match (BolOrSlash # r) b (x # xs) =
     ((b \<and> rx_match r b (x # xs)) \<or> (x = CHR ''/'' \<and> rx_match r False xs))"
| "rx_match (EolOrSlash # r) b [] = rx_match r b []"
| "rx_match (EolOrSlash # r) b (x # xs) =
     ((at_eol (x # xs) \<and> rx_match r b (x # xs)) \<or> (x = CHR ''/'' \<and> rx_match r False xs))"

text \<open>\<open>regex.search\<close>, as a truth value: the items match at some position of the subject.\<close>

fun rx_search_from :: "rx list \<Rightarrow> bool \<Rightarrow> string \<Rightarrow> bool" where
  "rx_search_from r b [] = rx_match r b []"
| "rx_search_from r b (x # xs) = (rx_match r b (x # xs) \<or> rx_search_from r False xs)"

definition re_search :: "rx list \<Rightarrow> string \<Rightarrow> bool" where
  "re_search r s = rx_search_from r True s"

section \<open>Gitignore patterns\<close>

record GitIgnorePattern =
  pattern :: string
  is_negated :: bool
  is_dir_only :: bool
  is_absolute :: bool
  regex_pattern :: "rx list"

text \<open>
  \<open>_pattern_to_regex\<close>: the text of the regular expression, from the pattern stripped of
  its markers and the two flags the method reads from \<open>self\<close>.
\<close>

definition pattern_to_regex_text :: "bool \<Rightarrow> bool \<Rightarrow> string \<Rightarrow> string" where
  "pattern_to_regex_text absolute dir_only p =
     (let p1 = re_escape p;
          p2 = replace_str [CHR 0x5C, CHR ''*'', CHR 0x5C, CHR ''*''] ''.*'' p1;
          p3 = replace_str [CHR 0x5C, CHR ''*''] ''[^/]*'' p2;
          p4 = replace_str [CHR 0x5C, CHR ''?''] ''[^/]'' p3;
          p5 = (if absolute then ''^'' @ p4 else ''(^|/)'' @ p4)
      in if dir_only then p5 @ ''(/|$)'' else p5 @ ''($|/)'')"

definition pattern_to_regex :: "bool \<Rightarrow> bool \<Rightarrow> string \<Rightarrow> rx list" where
  "pattern_to_regex absolute dir_only p = re_compile (pattern_to_regex_text absolute dir_only p)"

text \<open>The constructor \<open>GitIgnorePattern.__init__\<close>.\<close>

definition mk_pattern :: "string \<Rightarrow> GitIgnorePattern" where
  "mk_pattern line =
     (let neg = prefix ''!'' line;
          p1 = (if neg then tl line else line);
          dir_only = suffix ''/'' p1;
          p2 = (if dir_only then butlast p1 else p1);
          absolute = prefix ''/'' p2;
          p3 = (if absolute then tl p2 else p2)
      in \<lparr> pattern = line, is_negated = neg, is_dir_only = dir_only, is_absolute = absolute,
           regex_pattern = pattern_to_regex absolute dir_only p3 \<rparr>)"

definition matches :: "GitIgnorePattern \<Rightarrow> string \<Rightarrow> bool \<Rightarrow> bool" where
  "matches p path is_dir =
     (if is_dir_only p \<and> \<not> is_dir then False else re_search (regex_pattern p) path)"

text \<open>
  \<open>is_ignored_by_gitignore\<close>: the loop over the patterns, with the running verdict as
  accumulator.
\<close>

fun ignored_loop :: "string \<Rightarrow> bool \<Rightarrow> bool \<Rightarrow> GitIgnorePattern list \<Rightarrow> bool" where
  "ignored_loop rel_path is_dir ignored [] = ignored"
| "ignored_loop rel_path is_dir ignored (p # ps) =
     ignored_loop rel_path is_dir (if matches p rel_path is_dir then \<not> is_negated p else ignored) ps"

definition is_ignored_by_gitignore :: "string \<Rightarrow> bool \<Rightarrow> GitIgnorePattern list \<Rightarrow> bool" where
  "is_ignored_by_gitignore rel_path is_dir gitignore_patterns =
     (if gitignore_patterns = [] then False
      else ignored_loop rel_path is_dir False gitignore_patterns)"

text \<open>
  The verdict as the specification words it, in two forms: the running boolean overwritten
  by every matching pattern in file order, and the last matching pattern deciding.
\<close>

definition isIgnored_spec :: "string \<Rightarrow> bool \<Rightarrow> GitIgnorePattern list \<Rightarrow> bool" where
  "isIgnored_spec p d P =
     foldl (\<lambda>ignored pat. if matches pat p d then \<not> is_negated pat else ignored) False P"

definition last_match_verdict :: "string \<Rightarrow> bool \<Rightarrow> GitIgnorePattern list \<Rightarrow> bool" where
  "last_match_verdict p d P =
     (case rev (filter (\<lambda>pat. matches pat p d) P) of
        [] \<Rightarrow> False
      | pat # _ \<Rightarrow> \<not> is_negated pat)"

section \<open>The file system\<close>

text \<open>
  A file is its bytes, or \<open>None\<close> when it cannot be opened or read; a directory is the
  list of its entries in the order \<open>os.scandir\<close> reports them. Symbolic links are not
  modelled.
\<close>

type_synonym byte = "8 word"

datatype node = File "byte list option" | Dir "(string \<times> node) list"

fun is_Dir :: "node \<Rightarrow> bool" where
  "is_Dir (Dir es) = True"
| "is_Dir (File c) = False"

text \<open>The subclasses of \<open>OSError\<close> (of which \<open>IOError\<close> is an alias) that opening a path raises.\<close>

datatype os_error = FileNotFoundError | IsADirectoryError | PermissionError

text \<open>
  \<open>open(path, 'rb')\<close> followed by \<open>f.read(sample_size)\<close>, on what the file system holds
  at \<open>path\<close> (\<open>None\<close> when nothing exists there). A negative size reads to the end.
\<close>

fun open_read :: "node option \<Rightarrow> int \<Rightarrow> os_error + byte list" where
  "open_read None n = Inl FileNotFoundError"
| "open_read (Some (Dir es)) n = Inl IsADirectoryError"
| "open_read (Some (File None)) n = Inl PermissionError"
| "open_read (Some (File (Some bs))) n = Inr (if n < 0 then bs else take (nat n) bs)"

section \<open>Binary detection\<close>

text \<open>
  \<open>bytes.decode('utf-8')\<close> with strict error handling: the code points of the bytes, or
  \<open>None\<close> for \<open>UnicodeDecodeError\<close> (a stray or missing continuation byte, an overlong
  form, a surrogate, a value above \<open>U+10FFFF\<close>).
\<close>

definition is_cont :: "byte \<Rightarrow> bool" where
  "is_cont b = (0x80 \<le> b \<and> b \<le> 0xBF)"

definition second_ok3 :: "byte \<Rightarrow> byte \<Rightarrow> bool" where
  "second_ok3 b b1 =
     (if b = 0xE0 then 0xA0 \<le> b1 \<and> b1 \<le> 0xBF
      else if b = 0xED then 0x80 \<le> b1 \<and> b1 \<le> 0x9F
      else is_cont b1)"

definition second_ok4 :: "byte \<Rightarrow> byte \<Rightarrow> bool" where
  "second_ok4 b b1 =
     (if b = 0xF0 then 0x90 \<le> b1 \<and> b1 \<le> 0xBF
      else if b = 0xF4 then 0x80 \<le> b1 \<and> b1 \<le> 0x8F
      else is_cont b1)"

definition low6 :: "byte \<Rightarrow> nat" where
  "low6 b = unat b mod 64"

fun utf8_decode :: "byte list \<Rightarrow> nat list option" where
  "utf8_decode [] = Some []"
| "utf8_decode (b # bs) =
     (if b < 0x80 then map_option ((#) (unat b)) (utf8_decode bs)
      else if 0xC2 \<le> b \<and> b \<le> 0xDF then
        (case bs of
           b1 # r \<Rightarrow>
             if is_cont b1
             then map_option ((#) (unat b mod 32 * 64 + low6 b1)) (utf8_decode r)
             else None
         | _ \<Rightarrow> None)
      else if 0xE0 \<le> b \<and> b \<le> 0xEF then
        (case bs of
           b1 # b2 # r \<Rightarrow>
             if second_ok3 b b1 \<and> is_cont b2
             then map_option ((#) ((unat b mod 16 * 64 + low6 b1) * 64 + low6 b2)) (utf8_decode r)
             else None
         | _ \<Rightarrow> None)
      else if 0xF0 \<le> b \<and> b \<le> 0xF4 then
        (case bs of
           b1 # b2 # b3 # r \<Rightarrow>
             if second_ok4 b b1 \<and> is_cont b2 \<and> is_cont b3
             then map_option
                    ((#) (((unat b mod 8 * 64 + low6 b1) * 64 + low6 b2) * 64 + low6 b3))
                    (utf8_decode r)
             else None
         | _ \<Rightarrow> None)
      else None)"

text \<open>
  \<open>is_binary_file\<close>. The outer handler catches every \<open>OSError\<close> that opening or reading
  raises, the inner one the \<open>UnicodeDecodeError\<close> of the decoding.
\<close>

definition is_binary_file :: "node option \<Rightarrow> int \<Rightarrow> bool" where
  "is_binary_file f sample_size =
     (case open_read f sample_size of
        Inl e \<Rightarrow> True
      | Inr sample \<Rightarrow>
          if 0 \<in> set sample then True
          else (case utf8_decode sample of Some txt \<Rightarrow> False | None \<Rightarrow> True))"

section \<open>Parsing a gitignore file\<close>

text \<open>
  The text layer of \<open>open(path, 'r')\<close>: the bytes are decoded one character per byte (an
  8-bit encoding; on ASCII content every encoding Python chooses agrees with it), and
  universal newlines turn \<open>\r\n\<close> and \<open>\r\<close> into \<open>\n\<close>.
\<close>

definition decode_text :: "byte list \<Rightarrow> string" where
  "decode_text bs = map (\<lambda>b. char_of (unat b)) bs"

fun universal_newlines :: "string \<Rightarrow> string" where
  "universal_newlines [] = []"
| "universal_newlines [c] = [if c = CHR 0x0D then CHR 0x0A else c]"
| "universal_newlines (c # d # ds) =
     (if c = CHR 0x0D \<and> d = CHR 0x0A then CHR 0x0A # universal_newlines ds
      else if c = CHR 0x0D then CHR 0x0A # universal_newlines (d # ds)
      else c # universal_newlines (d # ds))"

text \<open>The lines that iterating a text file yields, each with its newline when it has one.\<close>

fun file_lines :: "string \<Rightarrow> string list" where
  "file_lines [] = []"
| "file_lines (c # cs) =
     (if c = CHR 0x0A then [c] # file_lines cs
      else (case file_lines cs of [] \<Rightarrow> [[c]] | l # ls \<Rightarrow> (c # l) # ls))"

fun parse_lines :: "string list \<Rightarrow> GitIgnorePattern list" where
  "parse_lines [] = []"
| "parse_lines (l # ls) =
     (let line = strip l
      in if line = [] \<or> prefix ''#'' line then parse_lines ls
         else mk_pattern line # parse_lines ls)"

text \<open>
  \<open>parse_gitignore\<close>, on what the file system holds at \<open>gitignore_path\<close>:
  \<open>os.path.exists\<close> is false exactly when nothing is there; \<open>open\<close> raises on a directory
  and on an unreadable file, and nothing in the function catches it.
\<close>

fun parse_gitignore :: "node option \<Rightarrow> os_error + GitIgnorePattern list" where
  "parse_gitignore None = Inr []"
| "parse_gitignore (Some (Dir es)) = Inl IsADirectoryError"
| "parse_gitignore (Some (File None)) = Inl PermissionError"
| "parse_gitignore (Some (File (Some bs))) =
     Inr (parse_lines (file_lines (universal_newlines (decode_text bs))))"

section \<open>The filtered walk\<close>

definition COMMON_IGNORE_DIRS :: "string list" where
  "COMMON_IGNORE_DIRS =
     [''node_modules'', ''dist'', ''build'', ''.next'', ''.nuxt'', ''coverage'',
      ''__pycache__'', ''venv'', ''env'', ''.env'', ''.venv'', ''.pytest_cache'',
      ''.mypy_cache'', ''site-packages'', ''.tox'', ''.eggs'', ''egg-info'',
      ''vendor'', ''bin'',
      ''vendor'', ''composer.phar'',
      ''target'', ''build'', ''out'', ''.gradle'', ''.mvn'', ''classes'',
      ''vendor'', ''tmp'', ''log'', ''.bundle'',
      ''migrations'', ''staticfiles'',
      ''bin'', ''obj'', ''packages'',
      ''.cache'', ''cache'', ''.sass-cache'']"

record FilterConfig =
  show_hidden :: bool
  show_deps :: bool
  respect_gitignore :: bool
  binary_check :: bool

text \<open>\<open>os.path.join\<close> of two components, on POSIX.\<close>

definition path_join :: "string \<Rightarrow> string \<Rightarrow> string" where
  "path_join a b =
     (if prefix ''/'' b then b
      else if a = [] \<or> suffix ''/'' a then a @ b
      else a @ ''/'' @ b)"

text \<open>
  \<open>os.path.relpath(path, root_dir)\<close> for a \<open>path\<close> that \<open>os.walk\<close> built from \<open>root_dir\<close>
  by joining the names \<open>segs\<close> one after the other: the names, separated by \<open>/\<close> (and \<open>.\<close>
  for the root itself).
\<close>

fun relpath :: "string list \<Rightarrow> string" where
  "relpath [] = ''.''"
| "relpath [s] = s"
| "relpath (s # t # ts) = s @ ''/'' @ relpath (t # ts)"

text \<open>
  The condition \<open>respect_gitignore and gitignore_patterns and is_ignored_by_gitignore(...)\<close>;
  \<open>gitignore_patterns\<close> is \<open>None\<close> when the file was not loaded.
\<close>

definition gitignore_excludes ::
  "FilterConfig \<Rightarrow> GitIgnorePattern list option \<Rightarrow> string \<Rightarrow> bool \<Rightarrow> bool" where
  "gitignore_excludes cfg pats rel_path is_dir =
     (respect_gitignore cfg \<and>
      (case pats of
         None \<Rightarrow> False
       | Some ps \<Rightarrow> ps \<noteq> [] \<and> is_ignored_by_gitignore rel_path is_dir ps))"

text \<open>\<open>list.pop(i)\<close> for an index in range, as the list that remains.\<close>

definition pop :: "nat \<Rightarrow> 'a list \<Rightarrow> 'a list" where
  "pop i xs = take i xs @ drop (Suc i) xs"

text \<open>
  The \<open>while\<close> loop that filters \<open>dirnames\<close> in place; \<open>segs\<close> are the names from the root
  to the directory being listed.
\<close>

function prune_dirnames ::
  "FilterConfig \<Rightarrow> GitIgnorePattern list option \<Rightarrow> string list \<Rightarrow> nat \<Rightarrow> string list
   \<Rightarrow> string list" where
  "prune_dirnames cfg pats segs i dirnames =
     (if i < length dirnames then
        (let dirname = dirnames ! i;
             rel_path = relpath (segs @ [dirname])
         in if prefix ''.'' dirname \<and> \<not> show_hidden cfg
              then prune_dirnames cfg pats segs i (pop i dirnames)
            else if dirname \<in> set COMMON_IGNORE_DIRS \<and> \<not> show_deps cfg
              then prune_dirnames cfg pats segs i (pop i dirnames)
            else if gitignore_excludes cfg pats rel_path True
              then prune_dirnames cfg pats segs i (pop i dirnames)
            else prune_dirnames cfg pats segs (Suc i) dirnames)
      else dirnames)"
  by pat_completeness auto
termination
  by (relation "measure (\<lambda>(cfg, pats, segs, i, dirnames). length dirnames - i)")
     (auto simp: pop_def)

declare prune_dirnames.simps [simp del]

text \<open>
  The \<open>for\<close> loop over \<open>filenames\<close>: the entries \<open>(file_path, rel_path)\<close> it yields.
  \<open>es\<close> are the entries of the directory, where the file that \<open>is_binary_file\<close> opens is
  looked up.
\<close>

fun process_files ::
  "FilterConfig \<Rightarrow> GitIgnorePattern list option \<Rightarrow> string \<Rightarrow> string list
   \<Rightarrow> (string \<times> node) list \<Rightarrow> string list \<Rightarrow> (string \<times> string) list" where
  "process_files cfg pats dirpath segs es [] = []"
| "process_files cfg pats dirpath segs es (filename # rest) =
     (if prefix ''.'' filename \<and> \<not> show_hidden cfg
        then process_files cfg pats dirpath segs es rest
      else
        (let file_path = path_join dirpath filename;
             rel_path = relpath (segs @ [filename])
         in if gitignore_excludes cfg pats rel_path False
              then process_files cfg pats dirpath segs es rest
            else if binary_check cfg \<and> is_binary_file (map_of es filename) 8192
              then process_files cfg pats dirpath segs es rest
            else (file_path, rel_path) # process_files cfg pats dirpath segs es rest))"

text \<open>
  What the walk does, in order: \<open>Scandir dirpath rel\<close> when \<open>os.walk\<close> lists a directory
  (\<open>rel\<close> is its path relative to the root), \<open>Yield file_path rel_path\<close> when the
  generator yields an entry.
\<close>

datatype event = Scandir string string | Yield string string

definition scandir_dirs :: "(string \<times> node) list \<Rightarrow> string list" where
  "scandir_dirs es = map fst (filter (\<lambda>(n, c). is_Dir c) es)"

definition scandir_files :: "(string \<times> node) list \<Rightarrow> string list" where
  "scandir_files es = map fst (filter (\<lambda>(n, c). \<not> is_Dir c) es)"

lemma map_of_size:
  "map_of es d = Some c \<Longrightarrow> size c < Suc (size_list (size_prod (\<lambda>_. 0) size) es)"
  by (induction es) (auto split: if_splits)

text \<open>
  The body of the loop \<open>for dirpath, dirnames, filenames in os.walk(root_dir)\<close> together
  with the top-down recursion of \<open>os.walk\<close>: the directory is listed, the body prunes
  \<open>dirnames\<close> and yields the files, then \<open>os.walk\<close> descends into the directories left in
  \<open>dirnames\<close>, in order.
\<close>

function walk_events ::
  "FilterConfig \<Rightarrow> GitIgnorePattern list option \<Rightarrow> string \<Rightarrow> string list
   \<Rightarrow> (string \<times> node) list \<Rightarrow> event list" where
  "walk_events cfg pats root_dir segs es =
     (let dirpath = foldl path_join root_dir segs;
          dirnames = prune_dirnames cfg pats segs 0 (scandir_dirs es);
          filenames = scandir_files es
      in Scandir dirpath (relpath segs)
         # map (\<lambda>(a, r). Yield a r) (process_files cfg pats dirpath segs es filenames)
         @ concat (map (\<lambda>dirname.
                          case map_of es dirname of
                            Some (Dir sub) \<Rightarrow> walk_events cfg pats root_dir (segs @ [dirname]) sub
                          | _ \<Rightarrow> [])
                       dirnames))"
  by pat_completeness auto
termination
  by (relation "measure (\<lambda>(cfg, pats, root_dir, segs, es). size_list (size_prod (\<lambda>_. 0) size) es)")
     (auto dest: map_of_size)

declare walk_events.simps [simp del]

fun yields :: "event list \<Rightarrow> (string \<times> string) list" where
  "yields [] = []"
| "yields (Yield a r # evs) = (a, r) # yields evs"
| "yields (Scandir a r # evs) = yields evs"

text \<open>
  \<open>walk_filtered_files\<close>, on the file system object \<open>root\<close> found at \<open>root_dir\<close>. The
  patterns are loaded first, from the entry \<open>.gitignore\<close> of the root; on anything but a
  directory \<open>os.walk\<close> yields nothing.
\<close>

definition load_patterns ::
  "FilterConfig \<Rightarrow> node \<Rightarrow> os_error + GitIgnorePattern list option" where
  "load_patterns cfg root =
     (if respect_gitignore cfg then
        (case parse_gitignore (case root of Dir es \<Rightarrow> map_of es ''.gitignore'' | File c \<Rightarrow> None) of
           Inl e \<Rightarrow> Inl e
         | Inr ps \<Rightarrow> Inr (Some ps))
      else Inr None)"

definition walk_trace :: "string \<Rightarrow> node \<Rightarrow> FilterConfig \<Rightarrow> os_error + event list" where
  "walk_trace root_dir root cfg =
     (case load_patterns cfg root of
        Inl e \<Rightarrow> Inl e
      | Inr pats \<Rightarrow>
          Inr (case root of Dir es \<Rightarrow> walk_events cfg pats root_dir [] es | File c \<Rightarrow> []))"

definition walk_filtered_files ::
  "string \<Rightarrow> node \<Rightarrow> FilterConfig \<Rightarrow> os_error + (string \<times> string) list" where
  "walk_filtered_files root_dir root cfg = map_sum id yields (walk_trace root_dir root cfg)"

section \<open>Paths, well-formed trees and what the walk may report\<close>





text \<open>
  A directory named \<open>dirname\<close> at the relative path \<open>rel_path\<close> is excluded by the walker:
  its name is hidden and hidden entries are not shown, or its name is in the dependency
  set and dependency directories are not shown, or the gitignore patterns ignore it.
\<close>

definition dir_excluded ::
  "FilterConfig \<Rightarrow> GitIgnorePattern list option \<Rightarrow> string \<Rightarrow> string \<Rightarrow> bool" where
  "dir_excluded cfg pats dirname rel_path =
     ((prefix ''.'' dirname \<and> \<not> show_hidden cfg)
      \<or> (dirname \<in> set COMMON_IGNORE_DIRS \<and> \<not> show_deps cfg)
      \<or> gitignore_excludes cfg pats rel_path True)"


definition file_kept ::
  "FilterConfig \<Rightarrow> GitIgnorePattern list option \<Rightarrow> (string \<times> node) list \<Rightarrow> string list
   \<Rightarrow> string \<Rightarrow> bool" where
  "file_kept cfg pats es segs f =
     (\<not> (prefix ''.'' f \<and> \<not> show_hidden cfg)
      \<and> \<not> gitignore_excludes cfg pats (relpath (segs @ [f])) False
      \<and> \<not> (binary_check cfg \<and> is_binary_file (map_of es f) 8192))"


text \<open>
  The end-to-end scenario: the bytes of the \<open>.gitignore\<close> file
  (\<open>*.log\<close>, \<open>!important.log\<close>, \<open>node_modules/\<close>, one per line), the entries of the root
  with any contents of the four other files, the default configuration, and the patterns
  the file parses to. Two further trees serve as examples.
\<close>

definition scenario_gitignore :: "byte list" where
  "scenario_gitignore =
     [0x2A, 0x2E, 0x6C, 0x6F, 0x67, 0x0A,
      0x21, 0x69, 0x6D, 0x70, 0x6F, 0x72, 0x74, 0x61, 0x6E, 0x74, 0x2E, 0x6C, 0x6F, 0x67, 0x0A,
      0x6E, 0x6F, 0x64, 0x65, 0x5F, 0x6D, 0x6F, 0x64, 0x75, 0x6C, 0x65, 0x73, 0x2F, 0x0A]"

definition scenario_entries ::
  "byte list option \<Rightarrow> byte list option \<Rightarrow> byte list option \<Rightarrow> byte list option
   \<Rightarrow> (string \<times> node) list" where
  "scenario_entries c1 c2 c3 c4 =
     [(''.gitignore'', File (Some scenario_gitignore)),
      (''a.log'', File c1),
      (''important.log'', File c2),
      (''b.txt'', File c3),
      (''node_modules'', Dir [(''x.js'', File c4)])]"

definition default_config :: FilterConfig where
  "default_config =
     \<lparr> show_hidden = False, show_deps = False, respect_gitignore = True, binary_check = False \<rparr>"

definition scenario_patterns :: "GitIgnorePattern list" where
  "scenario_patterns = map mk_pattern [''*.log'', ''!important.log'', ''node_modules/'']"

definition pruning_example :: "(string \<times> node) list" where
  "pruning_example =
     [(''src'', Dir [(''build'', Dir [(''main.o'', File (Some [0x7F, 0x45]))]),
                     (''main.c'', File (Some [0x69, 0x6E, 0x74]))])]"

definition unreadable_example :: "(string \<times> node) list" where
  "unreadable_example =
     [(''secret.txt'', File None), (''notes.txt'', File (Some [0x68, 0x69]))]"

section \<open>Pattern matching: results\<close>

lemma ignored_loop_foldl:
  "ignored_loop p d acc P =
     foldl (\<lambda>ignored pat. if matches pat p d then \<not> is_negated pat else ignored) acc P"
  by (induction P arbitrary: acc) simp_all

lemma ignored_loop_last_match:
  "ignored_loop p d acc P =
     (case rev (filter (\<lambda>pat. matches pat p d) P) of
        [] \<Rightarrow> acc
      | pat # _ \<Rightarrow> \<not> is_negated pat)"
proof (induction P arbitrary: acc)
  case Nil
  show ?case by simp
next
  case (Cons q P)
  show ?case
    by (cases "rev (filter (\<lambda>pat. matches pat p d) P)") (simp_all add: Cons.IH)
qed

text \<open>
  C1. For every pattern list, path and directory flag, \<open>is_ignored_by_gitignore\<close> is the
  verdict of the specification: the patterns are visited in file order, every matching
  pattern overwrites the running verdict with the negation of its \<open>negated\<close> flag, there is
  no early exit (so the last matching pattern decides), and the verdict is false when no
  pattern matches. With the patterns \<open>*.log\<close> and \<open>!keep.log\<close>, \<open>keep.log\<close> is not ignored
  and \<open>other.log\<close> is.
\<close>

theorem is_ignored_last_match_wins:
  "is_ignored_by_gitignore p d P = isIgnored_spec p d P
   \<and> is_ignored_by_gitignore p d P = last_match_verdict p d P
   \<and> \<not> is_ignored_by_gitignore ''keep.log'' False (map mk_pattern [''*.log'', ''!keep.log''])
   \<and> is_ignored_by_gitignore ''other.log'' False (map mk_pattern [''*.log'', ''!keep.log''])"
proof -
  have a: "is_ignored_by_gitignore p d P = isIgnored_spec p d P"
    by (simp add: is_ignored_by_gitignore_def isIgnored_spec_def ignored_loop_foldl)
  have b: "is_ignored_by_gitignore p d P = last_match_verdict p d P"
    by (simp add: is_ignored_by_gitignore_def last_match_verdict_def ignored_loop_last_match)
  have c: "\<not> is_ignored_by_gitignore ''keep.log'' False (map mk_pattern [''*.log'', ''!keep.log''])"
    by code_simp
  have e: "is_ignored_by_gitignore ''other.log'' False (map mk_pattern [''*.log'', ''!keep.log''])"
    by code_simp
  from a b c e show ?thesis by blast
qed

text \<open>
  C2, as the specification states it, fails: the pattern \<open>**/cache\<close> compiles to
  \<open>(^|/).*/cache($|/)\<close>, which needs a \<open>/\<close> before \<open>cache\<close>, so it does not match the
  path \<open>cache\<close> (as a file or as a directory).
\<close>

theorem double_star_cache_counterexample:
  "\<not> matches (mk_pattern ''**/cache'') ''cache'' False
   \<and> \<not> matches (mk_pattern ''**/cache'') ''cache'' True"
  by code_simp

text \<open>
  C2, amended. The pattern \<open>*.tmp\<close> compiles to \<open>(^|/)[^/]*\.tmp($|/)\<close> and matches
  \<open>a.tmp\<close>, \<open>dir/b.tmp\<close> and also \<open>dir/sub.tmp/c\<close> (at the segment \<open>sub.tmp\<close>, which a \<open>/\<close>
  follows); its \<open>*\<close> does not run over a \<open>/\<close>, so the anchored \<open>/*.tmp\<close> does not match
  \<open>dir/b.tmp\<close>. The pattern \<open>**/cache\<close> compiles to \<open>(^|/).*/cache($|/)\<close> and matches
  \<open>a/cache\<close> and \<open>a/b/cache\<close>, but not \<open>cache\<close>.
\<close>

theorem wildcard_semantics:
  "regex_pattern (mk_pattern ''*.tmp'') =
     [BolOrSlash, NonSlashStar, Lit CHR ''.'', Lit CHR ''t'', Lit CHR ''m'', Lit CHR ''p'',
      EolOrSlash]
   \<and> matches (mk_pattern ''*.tmp'') ''a.tmp'' False
   \<and> matches (mk_pattern ''*.tmp'') ''dir/b.tmp'' False
   \<and> matches (mk_pattern ''*.tmp'') ''dir/sub.tmp/c'' False
   \<and> \<not> matches (mk_pattern ''/*.tmp'') ''dir/b.tmp'' False
   \<and> regex_pattern (mk_pattern ''**/cache'') =
     [BolOrSlash, AnyStar, Lit CHR ''/'', Lit CHR ''c'', Lit CHR ''a'', Lit CHR ''c'',
      Lit CHR ''h'', Lit CHR ''e'', EolOrSlash]
   \<and> \<not> matches (mk_pattern ''**/cache'') ''cache'' False
   \<and> matches (mk_pattern ''**/cache'') ''a/cache'' False
   \<and> matches (mk_pattern ''**/cache'') ''a/b/cache'' False"
  by code_simp

section \<open>Anchoring and directory-only patterns\<close>

lemma re_compile_bol: "re_compile (CHR ''^'' # x) = Bol # re_compile x"
  by (subst re_compile.simps) simp

lemma re_compile_bol_or_slash: "re_compile (''(^|/)'' @ x) = BolOrSlash # re_compile x"
  by (subst re_compile.simps) simp

lemma regex_pattern_head:
  "regex_pattern (mk_pattern line) =
     (if is_absolute (mk_pattern line) then Bol else BolOrSlash)
     # tl (regex_pattern (mk_pattern line))"
  using re_compile_bol_or_slash
  by (simp add: mk_pattern_def Let_def pattern_to_regex_def pattern_to_regex_text_def
      re_compile_bol)

lemma search_bol_later: "rx_search_from (Bol # r) False s = False"
  by (induction s) simp_all

lemma search_bol: "re_search (Bol # r) s = rx_match r True s"
  by (cases s) (simp_all add: re_search_def search_bol_later)

lemma split_at_slash:
  "(\<exists>pre post. x # xs = pre @ CHR ''/'' # post \<and> P post) =
   ((x = CHR ''/'' \<and> P xs) \<or> (\<exists>pre post. xs = pre @ CHR ''/'' # post \<and> P post))"
  (is "?L = ?R")
proof
  assume ?L
  then obtain pre post where e: "x # xs = pre @ CHR ''/'' # post" and m: "P post"
    by blast
  show ?R
  proof (cases pre)
    case Nil
    with e m show ?thesis by simp
  next
    case (Cons p ps)
    with e m show ?thesis by auto
  qed
next
  assume ?R
  then show ?L
  proof
    assume "x = CHR ''/'' \<and> P xs"
    then have "x # xs = [] @ CHR ''/'' # xs \<and> P xs" by simp
    then show ?L by blast
  next
    assume "\<exists>pre post. xs = pre @ CHR ''/'' # post \<and> P post"
    then obtain pre post where "xs = pre @ CHR ''/'' # post" "P post" by blast
    then have "x # xs = (x # pre) @ CHR ''/'' # post \<and> P post" by simp
    then show ?L by blast
  qed
qed

lemma search_bol_or_slash_from:
  "rx_search_from (BolOrSlash # r) b s =
     ((b \<and> rx_match r b s)
      \<or> (\<exists>pre post. s = pre @ CHR ''/'' # post \<and> rx_match r False post))"
proof (induction s arbitrary: b)
  case Nil
  show ?case by simp
next
  case (Cons x xs)
  show ?case
    unfolding split_at_slash [of x xs "rx_match r False"]
    by (auto simp: Cons.IH)
qed

text \<open>
  C5. The compiled matcher of a pattern starts with \<open>^\<close> when the pattern is
  root-anchored and with \<open>(^|/)\<close> otherwise. A search with \<open>^\<close> in front succeeds only by
  a match from the start of the path; a search with \<open>(^|/)\<close> in front succeeds by a match
  from the start or from just after any \<open>/\<close>. So \<open>/README.md\<close> matches \<open>README.md\<close> and
  not \<open>sub/README.md\<close>, and \<open>README.md\<close> matches both.
\<close>

theorem anchoring:
  "regex_pattern (mk_pattern line) =
     (if is_absolute (mk_pattern line) then Bol else BolOrSlash)
     # tl (regex_pattern (mk_pattern line))
   \<and> re_search (Bol # r) path = rx_match r True path
   \<and> re_search (BolOrSlash # r) path =
       (rx_match r True path
        \<or> (\<exists>pre post. path = pre @ CHR ''/'' # post \<and> rx_match r False post))
   \<and> is_absolute (mk_pattern ''/README.md'')
   \<and> matches (mk_pattern ''/README.md'') ''README.md'' False
   \<and> \<not> matches (mk_pattern ''/README.md'') ''sub/README.md'' False
   \<and> \<not> is_absolute (mk_pattern ''README.md'')
   \<and> matches (mk_pattern ''README.md'') ''README.md'' False
   \<and> matches (mk_pattern ''README.md'') ''sub/README.md'' False"
proof -
  have a: "re_search (BolOrSlash # r) path =
       (rx_match r True path
        \<or> (\<exists>pre post. path = pre @ CHR ''/'' # post \<and> rx_match r False post))"
    by (simp add: re_search_def search_bol_or_slash_from)
  have b: "is_absolute (mk_pattern ''/README.md'')
     \<and> matches (mk_pattern ''/README.md'') ''README.md'' False
     \<and> \<not> matches (mk_pattern ''/README.md'') ''sub/README.md'' False
     \<and> \<not> is_absolute (mk_pattern ''README.md'')
     \<and> matches (mk_pattern ''README.md'') ''README.md'' False
     \<and> matches (mk_pattern ''README.md'') ''sub/README.md'' False"
    by code_simp
  from regex_pattern_head [of line] search_bol [of r path] a b show ?thesis
    by blast
qed

lemma dir_only_iff: "is_dir_only (mk_pattern line) = suffix ''/'' line"
  by (cases line) (auto simp: mk_pattern_def Let_def suffix_Cons)

text \<open>
  C6. A pattern is directory-only exactly when its raw line ends with \<open>/\<close>, and a
  directory-only pattern matches no path that is queried as a non-directory. The pattern
  \<open>build/\<close> does not match \<open>build\<close> queried as a file and matches it queried as a
  directory.
\<close>

theorem dir_only_exclusive:
  "is_dir_only (mk_pattern line) = suffix ''/'' line
   \<and> (is_dir_only p \<longrightarrow> \<not> matches p path False)
   \<and> \<not> matches (mk_pattern ''build/'') ''build'' False
   \<and> matches (mk_pattern ''build/'') ''build'' True"
proof -
  have a: "is_dir_only p \<longrightarrow> \<not> matches p path False"
    by (simp add: matches_def)
  have b: "\<not> matches (mk_pattern ''build/'') ''build'' False
     \<and> matches (mk_pattern ''build/'') ''build'' True"
    by code_simp
  from dir_only_iff [of line] a b show ?thesis by blast
qed

theorem dir_only_exclusive_witness:
  "suffix ''/'' ''docs/''
   \<and> is_dir_only (mk_pattern ''docs/'')
   \<and> \<not> matches (mk_pattern ''docs/'') ''docs/readme'' False"
proof -
  have s: "suffix ''/'' ''docs/''"
    by code_simp
  from dir_only_exclusive [of "''docs/''" "mk_pattern ''docs/''" "''docs/readme''"] s
  show ?thesis by blast
qed

section \<open>Binary detection: results\<close>

text \<open>
  C7. For a readable file and a sample size that is not negative, the sample is the first
  \<open>min sample_size (length bs)\<close> bytes. When the sample holds a zero byte the file is
  binary, whatever the other bytes are; when it holds none and decodes as UTF-8 the file
  is not binary.
\<close>

theorem null_byte_or_utf8:
  "0 \<le> n \<Longrightarrow>
   (0 \<in> set (take (nat n) bs) \<longrightarrow> is_binary_file (Some (File (Some bs))) n)
   \<and> (0 \<notin> set (take (nat n) bs) \<and> utf8_decode (take (nat n) bs) \<noteq> None
        \<longrightarrow> \<not> is_binary_file (Some (File (Some bs))) n)"
  by (auto simp: is_binary_file_def)

theorem null_byte_or_utf8_witness:
  "(0::int) \<le> 2
   \<and> 0 \<in> set (take (nat 2) [0x61, 0x00, 0x62 :: byte])
   \<and> is_binary_file (Some (File (Some [0x61, 0x00, 0x62]))) 2
   \<and> 0 \<notin> set (take (nat 2) [0x68, 0x69, 0x00 :: byte])
   \<and> utf8_decode (take (nat 2) [0x68, 0x69, 0x00]) \<noteq> None
   \<and> \<not> is_binary_file (Some (File (Some [0x68, 0x69, 0x00]))) 2"
proof -
  have n: "(0::int) \<le> 2" by simp
  have t: "take (nat 2) [0x61, 0x00, 0x62 :: byte] = [0x61, 0x00]"
    "take (nat 2) [0x68, 0x69, 0x00 :: byte] = [0x68, 0x69]"
    by (simp_all add: numeral_2_eq_2)
  have z: "0 \<in> set (take (nat 2) [0x61, 0x00, 0x62 :: byte])"
    "0 \<notin> set (take (nat 2) [0x68, 0x69, 0x00 :: byte])"
    unfolding t by simp_all
  have d: "utf8_decode (take (nat 2) [0x68, 0x69, 0x00]) \<noteq> None"
    unfolding t by code_simp
  from null_byte_or_utf8 [OF n, of "[0x61, 0x00, 0x62]"]
       null_byte_or_utf8 [OF n, of "[0x68, 0x69, 0x00]"] n z d
  show ?thesis by blast
qed

text \<open>
  C9. Where no \<open>.gitignore\<close> exists, \<open>parse_gitignore\<close> returns the empty pattern list
  and raises nothing, and with that list no path is ignored, as a file or as a directory.
\<close>

theorem missing_gitignore_is_empty:
  "parse_gitignore None = Inr []
   \<and> (case parse_gitignore None of
        Inl e \<Rightarrow> False
      | Inr ps \<Rightarrow> \<not> is_ignored_by_gitignore path is_dir ps)"
  by (simp add: is_ignored_by_gitignore_def)



section \<open>The walk: results\<close>





lemma prune_dirnames_filter:
  "prune_dirnames cfg pats segs i ds =
     take i ds @ filter (\<lambda>d. \<not> dir_excluded cfg pats d (relpath (segs @ [d]))) (drop i ds)"
proof (induction cfg pats segs i ds rule: prune_dirnames.induct)
  case (1 cfg pats segs i ds)
  show ?case
  proof (cases "i < length ds")
    case False
    then show ?thesis by (subst prune_dirnames.simps) simp
  next
    case True
    then have d: "drop i ds = ds ! i # drop (Suc i) ds"
      by (simp add: Cons_nth_drop_Suc)
    have p: "take i (pop i ds) = take i ds" "drop i (pop i ds) = drop (Suc i) ds"
      using True by (simp_all add: pop_def)
    show ?thesis
    proof (cases "dir_excluded cfg pats (ds ! i) (relpath (segs @ [ds ! i]))")
      case ex: True
      then have "prune_dirnames cfg pats segs i ds = prune_dirnames cfg pats segs i (pop i ds)"
        using True by (subst prune_dirnames.simps) (auto simp: dir_excluded_def Let_def)
      also have "\<dots> = take i (pop i ds) @ filter (\<lambda>d. \<not> dir_excluded cfg pats d (relpath (segs @ [d]))) (drop i (pop i ds))"
        using ex "1.IH"(1) [OF True refl refl] "1.IH"(2) [OF True refl refl]
          "1.IH"(3) [OF True refl refl]
        unfolding dir_excluded_def by blast
      finally show ?thesis using ex by (simp add: p d)
    next
      case nex: False
      then have "prune_dirnames cfg pats segs i ds = prune_dirnames cfg pats segs (Suc i) ds"
        using True by (subst prune_dirnames.simps) (auto simp: dir_excluded_def Let_def)
      also have "\<dots> = take (Suc i) ds @ filter (\<lambda>d. \<not> dir_excluded cfg pats d (relpath (segs @ [d]))) (drop (Suc i) ds)"
        using nex "1.IH"(4) [OF True refl refl]
        unfolding dir_excluded_def by blast
      finally show ?thesis using nex True by (simp add: d take_Suc_conv_app_nth)
    qed
  qed
qed

lemma process_files_filter:
  "process_files cfg pats dirpath segs es fns =
     map (\<lambda>f. (path_join dirpath f, relpath (segs @ [f]))) (filter (file_kept cfg pats es segs) fns)"
  by (induction fns) (auto simp: file_kept_def Let_def)















lemma scenario_text:
  "decode_text scenario_gitignore =
     ''*.log'' @ [CHR 0x0A] @ ''!important.log'' @ [CHR 0x0A] @ ''node_modules/'' @ [CHR 0x0A]"
  by code_simp

lemma scenario_parse:
  "parse_gitignore (Some (File (Some scenario_gitignore))) = Inr scenario_patterns"
  unfolding parse_gitignore.simps scenario_text scenario_patterns_def
  by code_simp

lemma map_of_unique:
  "(k, v) \<in> set es \<Longrightarrow> (\<And>v'. (k, v') \<in> set es \<Longrightarrow> v' = v) \<Longrightarrow> map_of es k = Some v"
  by (metis map_of_SomeD weak_map_of_SomeI)

lemma scenario_load:
  assumes "set es = set (scenario_entries c1 c2 c3 c4)"
  shows "load_patterns default_config (Dir es) = Inr (Some scenario_patterns)"
proof -
  have "map_of es ''.gitignore'' = Some (File (Some scenario_gitignore))"
    by (rule map_of_unique) (simp_all add: assms scenario_entries_def)
  then show ?thesis
    by (simp add: load_patterns_def default_config_def scenario_parse del: parse_gitignore.simps)
qed

lemma scenario_dirs:
  assumes "set es = set (scenario_entries c1 c2 c3 c4)"
  shows "set (scandir_dirs es) = {''node_modules''}"
  by (auto simp: scandir_dirs_def assms scenario_entries_def image_iff)

lemma scenario_files:
  assumes "set es = set (scenario_entries c1 c2 c3 c4)"
  shows "set (scandir_files es) = {''.gitignore'', ''a.log'', ''important.log'', ''b.txt''}"
  by (auto simp: scandir_files_def assms scenario_entries_def image_iff)

lemma scenario_excluded:
  "dir_excluded default_config pats ''node_modules'' rel"
  by (simp add: dir_excluded_def default_config_def COMMON_IGNORE_DIRS_def)

lemma scenario_kept:
  "file_kept default_config (Some scenario_patterns) es [] f =
     (\<not> prefix ''.'' f \<and> \<not> is_ignored_by_gitignore f False scenario_patterns)"
  by (simp add: file_kept_def default_config_def gitignore_excludes_def scenario_patterns_def)

lemma scenario_verdicts:
  "prefix ''.'' ''.gitignore''"
  "\<not> prefix ''.'' ''a.log''" "is_ignored_by_gitignore ''a.log'' False scenario_patterns"
  "\<not> prefix ''.'' ''important.log''"
  "\<not> is_ignored_by_gitignore ''important.log'' False scenario_patterns"
  "\<not> prefix ''.'' ''b.txt''" "\<not> is_ignored_by_gitignore ''b.txt'' False scenario_patterns"
  by code_simp+

lemma yields_map_Yield: "yields (map (\<lambda>(a, r). Yield a r) xs) = xs"
  by (induction xs) auto

lemma walk_events_flat:
  assumes "prune_dirnames cfg pats segs 0 (scandir_dirs es) = []"
  shows "yields (walk_events cfg pats root_dir segs es) =
           process_files cfg pats (foldl path_join root_dir segs) segs es (scandir_files es)"
  by (subst walk_events.simps) (simp add: Let_def assms yields_map_Yield)

text \<open>
  C3. Let the root directory hold, in whatever order it is listed, the \<open>.gitignore\<close>
  file with the lines \<open>*.log\<close>, \<open>!important.log\<close> and \<open>node_modules/\<close>, the files
  \<open>a.log\<close>, \<open>important.log\<close> and \<open>b.txt\<close>, and the directory \<open>node_modules\<close> with the
  file \<open>x.js\<close>. The walk with the default configuration raises nothing and yields exactly
  the entries of \<open>important.log\<close> and \<open>b.txt\<close>.
\<close>

theorem end_to_end_scenario:
  assumes "set es = set (scenario_entries c1 c2 c3 c4)"
  shows "\<exists>out. walk_filtered_files root_dir (Dir es) default_config = Inr out
           \<and> set out = {(path_join root_dir ''important.log'', ''important.log''),
                        (path_join root_dir ''b.txt'', ''b.txt'')}
           \<and> snd ` set out = {''important.log'', ''b.txt''}"
proof -
  let ?pats = "Some scenario_patterns"
  let ?evs = "walk_events default_config ?pats root_dir [] es"
  let ?entry = "\<lambda>f. (path_join root_dir f, f)"
  have out: "walk_filtered_files root_dir (Dir es) default_config = Inr (yields ?evs)"
    by (simp add: walk_filtered_files_def walk_trace_def scenario_load [OF assms])
  have kept: "prune_dirnames default_config ?pats [] 0 (scandir_dirs es) = []"
    using scenario_dirs [OF assms]
    by (simp add: prune_dirnames_filter filter_empty_conv scenario_excluded)
  have k: "{f \<in> set (scandir_files es). file_kept default_config ?pats es [] f} =
      {''important.log'', ''b.txt''}"
    unfolding scenario_files [OF assms] scenario_kept
    using scenario_verdicts by blast
  have "set (yields ?evs) =
      ?entry ` {f \<in> set (scandir_files es). file_kept default_config ?pats es [] f}"
    unfolding walk_events_flat [OF kept] process_files_filter by auto
  then have s: "set (yields ?evs) = {?entry ''important.log'', ?entry ''b.txt''}"
    unfolding k by (simp only: image_insert image_empty)
  then have "snd ` set (yields ?evs) = {''important.log'', ''b.txt''}"
    by (simp only: image_insert image_empty snd_conv)
  with out s show ?thesis by blast
qed

theorem end_to_end_scenario_witness:
  "set (scenario_entries None None None None) = set (scenario_entries None None None None)
   \<and> (\<exists>out. walk_filtered_files ''/repo'' (Dir (scenario_entries None None None None)) default_config = Inr out
           \<and> set out = {(''/repo/important.log'', ''important.log''), (''/repo/b.txt'', ''b.txt'')})"
proof -
  have j: "path_join ''/repo'' ''important.log'' = ''/repo/important.log''"
    "path_join ''/repo'' ''b.txt'' = ''/repo/b.txt''"
    by code_simp+
  from end_to_end_scenario [OF refl, of "''/repo''" None None None None]
  show ?thesis unfolding j by blast
qed



lemma pruning_example_trace:
  "walk_trace ''/repo'' (Dir pruning_example) default_config =
     Inr [Scandir ''/repo'' ''.'', Scandir ''/repo/src'' ''src'',
          Yield ''/repo/src/main.c'' ''src/main.c'']"
  by code_simp



lemma unreadable_example_walk:
  "walk_filtered_files ''/repo'' (Dir unreadable_example)
     (default_config\<lparr>binary_check := True\<rparr>) =
   Inr [(''/repo/notes.txt'', ''notes.txt'')]"
  by code_simp

end
